theory Spec2Isabelle
  imports Complex_Main
begin

section \<open>Data model\<close>

text \<open>
  The layout code of \<^verbatim>\<open>src/drawscape_factorio/create.py\<close> computes with Python numbers
  (\<^verbatim>\<open>int\<close> coordinates from the JSON export, \<^verbatim>\<open>float\<close> after the first true division).
  They are modelled as exact rationals: \<^verbatim>\<open>+\<close>, \<^verbatim>\<open>-\<close>, \<^verbatim>\<open>*\<close> are exact, \<^verbatim>\<open>/\<close> is
  \<open>py_truediv\<close> below, which raises on a zero divisor as Python does for both
  \<^verbatim>\<open>int\<close> and \<^verbatim>\<open>float\<close>. Rounding of IEEE doubles is not modelled.
\<close>

datatype py_error = TypeError | ZeroDivisionError

text \<open>
  An entity is a dictionary read through \<^verbatim>\<open>entity['x']\<close> and \<^verbatim>\<open>entity['y']\<close>; every
  other key belongs to the theme and lives in the record's extension.
\<close>

record entity =
  entity_x :: rat
  entity_y :: rat

text \<open>
  The parsed JSON: a dictionary from category name to a list of entities, kept as an
  association list in insertion order. \<^verbatim>\<open>data.values()\<close> and \<^verbatim>\<open>data.get(k, default)\<close>:
\<close>

type_synonym 'a entity_collection = "(string \<times> 'a entity_scheme list) list"

definition dict_values :: "('k \<times> 'v) list \<Rightarrow> 'v list" where
  "dict_values d = map snd d"

definition dict_get :: "('k \<times> 'v) list \<Rightarrow> 'k \<Rightarrow> 'v \<Rightarrow> 'v" where
  "dict_get d k dflt = (case map_of d k of None \<Rightarrow> dflt | Some v \<Rightarrow> v)"

text \<open>The dictionary returned by \<^verbatim>\<open>get_entity_bounds\<close>.\<close>

record bounds =
  min_x :: rat
  max_x :: rat
  min_y :: rat
  max_y :: rat

section \<open>Bounds: \<^verbatim>\<open>get_entity_bounds\<close>\<close>

text \<open>
  Python's \<^verbatim>\<open>min\<close> and \<^verbatim>\<open>max\<close> over a non-empty iterable: start from the first item
  and replace the candidate when a later item is strictly smaller (strictly larger).
\<close>

fun py_min_from :: "rat \<Rightarrow> rat list \<Rightarrow> rat" where
  "py_min_from m [] = m"
| "py_min_from m (v # vs) = py_min_from (if v < m then v else m) vs"

fun py_max_from :: "rat \<Rightarrow> rat list \<Rightarrow> rat" where
  "py_max_from m [] = m"
| "py_max_from m (v # vs) = py_max_from (if v > m then v else m) vs"

text \<open>
  \<^verbatim>\<open>all_entities = [entity for category in data.values() for entity in category]\<close>;
  \<^verbatim>\<open>if not all_entities: return None\<close>; otherwise the four extremes. The second
  branch is the only place \<^verbatim>\<open>min\<close> and \<^verbatim>\<open>max\<close> run, on a list with a first item.
\<close>

definition get_entity_bounds :: "'a entity_collection \<Rightarrow> bounds option" where
  "get_entity_bounds data =
     (let all_entities = concat (dict_values data) in
      case all_entities of
        [] \<Rightarrow> None
      | e # es \<Rightarrow>
          Some \<lparr>min_x = py_min_from (entity_x e) (map entity_x es),
                max_x = py_max_from (entity_x e) (map entity_x es),
                min_y = py_min_from (entity_y e) (map entity_y es),
                max_y = py_max_from (entity_y e) (map entity_y es)\<rparr>)"

section \<open>Layout: \<^verbatim>\<open>calculate_canvas_and_viewbox\<close>\<close>

text \<open>
  Python's \<^verbatim>\<open>a / b\<close>: \<^verbatim>\<open>ZeroDivisionError\<close> when \<^verbatim>\<open>b\<close> is zero, for integers and for
  floats alike; no infinity and no NaN comes out of a division.
\<close>

definition py_truediv :: "rat \<Rightarrow> rat \<Rightarrow> py_error + rat" where
  "py_truediv a b = (if b = 0 then Inl ZeroDivisionError else Inr (a / b))"

text \<open>
  The local variables of \<^verbatim>\<open>calculate_canvas_and_viewbox\<close> at its \<^verbatim>\<open>return\<close>, under
  their source names.
\<close>

record layout_locals =
  svg_width_mm :: rat
  svg_height_mm :: rat
  padding_mm :: rat
  content_width_mm :: rat
  content_height_mm :: rat
  width :: rat
  height :: rat
  scale :: rat
  scaled_width :: rat
  scaled_height :: rat
  x_offset :: rat
  y_offset :: rat
  viewbox_width :: rat
  viewbox_height :: rat
  viewbox_x :: rat
  viewbox_y :: rat

text \<open>
  The body of \<^verbatim>\<open>calculate_canvas_and_viewbox(data, orientation)\<close>, statement by
  statement. \<^verbatim>\<open>bounds['max_x']\<close> on the \<^verbatim>\<open>None\<close> that \<^verbatim>\<open>get_entity_bounds\<close> returns for
  an empty collection raises \<^verbatim>\<open>TypeError\<close>. The two arguments of \<^verbatim>\<open>min\<close> are evaluated
  left to right, so a zero \<^verbatim>\<open>width\<close> raises before \<^verbatim>\<open>height\<close> is looked at. The
  divisions by the literal \<^verbatim>\<open>2\<close> cannot fail.
\<close>

definition calculate_canvas_and_viewbox_locals ::
  "'a entity_collection \<Rightarrow> string \<Rightarrow> py_error + layout_locals" where
  "calculate_canvas_and_viewbox_locals data orientation =
     (let svg_width_mm = (if orientation = ''landscape'' then 297 else 210);
          svg_height_mm = (if orientation = ''landscape'' then 210 else 297);
          padding_mm = 10;
          content_width_mm = svg_width_mm - 2 * padding_mm;
          content_height_mm = svg_height_mm - 2 * padding_mm
      in case get_entity_bounds data of
           None \<Rightarrow> Inl TypeError
         | Some bounds \<Rightarrow>
             let width = max_x bounds - min_x bounds;
                 height = max_y bounds - min_y bounds
             in case py_truediv content_width_mm width of
                  Inl err \<Rightarrow> Inl err
                | Inr scale_w \<Rightarrow>
             case py_truediv content_height_mm height of
                  Inl err \<Rightarrow> Inl err
                | Inr scale_h \<Rightarrow>
             let scale = min scale_w scale_h;
                 scaled_width = width * scale;
                 scaled_height = height * scale;
                 x_offset = (svg_width_mm - scaled_width) / 2;
                 y_offset = (svg_height_mm - scaled_height) / 2
             in case py_truediv svg_width_mm scale of
                  Inl err \<Rightarrow> Inl err
                | Inr extent_x \<Rightarrow>
             case py_truediv svg_height_mm scale of
                  Inl err \<Rightarrow> Inl err
                | Inr extent_y \<Rightarrow>
             case py_truediv (x_offset - padding_mm) scale of
                  Inl err \<Rightarrow> Inl err
                | Inr shift_x \<Rightarrow>
             case py_truediv (y_offset - padding_mm) scale of
                  Inl err \<Rightarrow> Inl err
                | Inr shift_y \<Rightarrow>
             Inr \<lparr>svg_width_mm = svg_width_mm, svg_height_mm = svg_height_mm,
                  padding_mm = padding_mm,
                  content_width_mm = content_width_mm,
                  content_height_mm = content_height_mm,
                  width = width, height = height, scale = scale,
                  scaled_width = scaled_width, scaled_height = scaled_height,
                  x_offset = x_offset, y_offset = y_offset,
                  viewbox_width = extent_x, viewbox_height = extent_y,
                  viewbox_x = min_x bounds - shift_x,
                  viewbox_y = min_y bounds - shift_y\<rparr>)"

text \<open>
  What the function returns: the tuple
  \<^verbatim>\<open>svg_width_mm, svg_height_mm, viewbox_x, viewbox_y, viewbox_width, viewbox_height\<close>.
\<close>

definition calculate_canvas_and_viewbox ::
  "'a entity_collection \<Rightarrow> string \<Rightarrow> py_error + (rat \<times> rat \<times> rat \<times> rat \<times> rat \<times> rat)" where
  "calculate_canvas_and_viewbox data orientation =
     (case calculate_canvas_and_viewbox_locals data orientation of
        Inl err \<Rightarrow> Inl err
      | Inr l \<Rightarrow>
          Inr (svg_width_mm l, svg_height_mm l, viewbox_x l, viewbox_y l,
               viewbox_width l, viewbox_height l))"

section \<open>Grid: \<^verbatim>\<open>create_grid\<close>\<close>

text \<open>
  The drawing object of \<^verbatim>\<open>svgwrite\<close>, as far as \<^verbatim>\<open>create\<close> uses it: the page size in
  millimetres, the \<^verbatim>\<open>viewBox\<close>, and the groups added so far, in the order of the
  \<^verbatim>\<open>dwg.add\<close> calls. A group holds grid lines (start, end, stroke colour, stroke
  width) or shapes rendered by the theme.
\<close>

datatype 's element =
  Line "rat \<times> rat" "rat \<times> rat" "nat \<times> nat \<times> nat" rat
| Rendered 's

record 's group =
  group_id :: string
  children :: "'s element list"

record 's drawing =
  size_mm :: "rat \<times> rat"
  viewBox :: "rat \<times> rat \<times> rat \<times> rat"
  elements :: "'s group list"

text \<open>Python's \<^verbatim>\<open>int(v)\<close> on a number: the fractional part is dropped, towards zero.\<close>

definition py_int :: "rat \<Rightarrow> int" where
  "py_int v = (if 0 \<le> v then \<lfloor>v\<rfloor> else \<lceil>v\<rceil>)"

text \<open>
  \<^verbatim>\<open>for i in range(start, stop): group.add(body(i))\<close>: the counter runs upwards from
  \<^verbatim>\<open>start\<close> while it is below \<^verbatim>\<open>stop\<close>, each pass appending one child.
\<close>

function for_range :: "int \<Rightarrow> int \<Rightarrow> (int \<Rightarrow> 's element) \<Rightarrow> 's group \<Rightarrow> 's group" where
  "for_range i stop body g =
     (if i < stop
      then for_range (i + 1) stop body (g\<lparr>children := children g @ [body i]\<rparr>)
      else g)"
  by pat_completeness auto
termination
  by (relation "measure (\<lambda>(i, stop, body, g). nat (stop - i))") auto

definition create_grid :: "'s drawing \<Rightarrow> rat \<Rightarrow> rat \<Rightarrow> rat \<Rightarrow> rat \<Rightarrow> 's drawing" where
  "create_grid dwg vb_x vb_y vb_width vb_height =
     (let grid_color = (200, 200, 200);
          grid_stroke_width = 5 / 100;
          grid_group = \<lparr>group_id = ''grid'', children = []\<rparr>;
          grid_group =
            for_range (py_int vb_x) (py_int (vb_x + vb_width) + 1)
              (\<lambda>x. Line (of_int x, vb_y) (of_int x, vb_y + vb_height)
                        grid_color grid_stroke_width)
              grid_group;
          grid_group =
            for_range (py_int vb_y) (py_int (vb_y + vb_height) + 1)
              (\<lambda>y. Line (vb_x, of_int y) (vb_x + vb_width, of_int y)
                        grid_color grid_stroke_width)
              grid_group
      in dwg\<lparr>elements := elements dwg @ [grid_group]\<rparr>)"

section \<open>Assembly: \<^verbatim>\<open>create\<close>\<close>

text \<open>
  The theme classes are not part of this file's source; a theme is taken as the six
  render methods that \<^verbatim>\<open>create\<close> looks up, each a function from an entity to a shape.
\<close>

record ('a, 's) theme =
  render_belt :: "'a entity_scheme \<Rightarrow> 's"
  render_wall :: "'a entity_scheme \<Rightarrow> 's"
  render_splitter :: "'a entity_scheme \<Rightarrow> 's"
  render_asset :: "'a entity_scheme \<Rightarrow> 's"
  render_spaceship :: "'a entity_scheme \<Rightarrow> 's"
  render_rail :: "'a entity_scheme \<Rightarrow> 's"

text \<open>The dictionary literal \<^verbatim>\<open>entity_types\<close>, in its written order.\<close>

definition entity_types :: "('a, 's) theme \<Rightarrow> (string \<times> ('a entity_scheme \<Rightarrow> 's)) list" where
  "entity_types th =
     [(''belts'', render_belt th),
      (''walls'', render_wall th),
      (''splitters'', render_splitter th),
      (''asset'', render_asset th),
      (''spaceship'', render_spaceship th),
      (''rails'', render_rail th)]"

text \<open>The inner loop \<^verbatim>\<open>for entity in entities: group.add(render_method(dwg, entity))\<close>.\<close>

fun add_rendered :: "('e \<Rightarrow> 's) \<Rightarrow> 'e list \<Rightarrow> 's group \<Rightarrow> 's group" where
  "add_rendered render_method [] g = g"
| "add_rendered render_method (e # es) g =
     add_rendered render_method es (g\<lparr>children := children g @ [Rendered (render_method e)]\<rparr>)"

text \<open>
  The outer loop over \<^verbatim>\<open>entity_types.items()\<close>: a fresh group per type, filled from
  \<^verbatim>\<open>data.get(entity_type, [])\<close>, and added to the drawing only \<^verbatim>\<open>if entities\<close>.
\<close>

fun render_groups ::
  "(string \<times> ('e \<Rightarrow> 's)) list \<Rightarrow> (string \<times> 'e list) list \<Rightarrow> 's drawing \<Rightarrow> 's drawing" where
  "render_groups [] data dwg = dwg"
| "render_groups ((entity_type, render_method) # rest) data dwg =
     (let g = \<lparr>group_id = entity_type, children = []\<rparr>;
          entities = dict_get data entity_type [];
          g = add_rendered render_method entities g
      in render_groups rest data
           (if entities \<noteq> [] then dwg\<lparr>elements := elements dwg @ [g]\<rparr> else dwg))"

text \<open>
  \<^verbatim>\<open>create\<close> up to \<^verbatim>\<open>dwg.save()\<close>: \<^verbatim>\<open>data\<close> stands for what \<^verbatim>\<open>parseJSON\<close> returned, the
  two themes for \<^verbatim>\<open>CirclesTheme()\<close> and \<^verbatim>\<open>DefaultTheme(resolution='LOW')\<close>. The result
  is the drawing that is saved, or the exception that ends the call. Printing and the
  optional optimiser run after the drawing is complete and do not change it.
\<close>

definition create ::
  "('a, 's) theme \<Rightarrow> ('a, 's) theme \<Rightarrow> 'a entity_collection \<Rightarrow> string \<Rightarrow> py_error + 's drawing" where
  "create circles_theme default_theme data template =
     (let th = (if template = ''circles'' then circles_theme else default_theme)
      in case calculate_canvas_and_viewbox data ''landscape'' of
           Inl err \<Rightarrow> Inl err
         | Inr (page_w, page_h, vb_x, vb_y, vb_width, vb_height) \<Rightarrow>
             let dwg = \<lparr>size_mm = (page_w, page_h),
                        viewBox = (vb_x, vb_y, vb_width, vb_height),
                        elements = []\<rparr>;
                 dwg = create_grid dwg vb_x vb_y vb_width vb_height;
                 dwg = render_groups (entity_types th) data dwg
             in Inr dwg)"

section \<open>The layout algorithm as the specification words it\<close>

text \<open>
  The nine steps of the specification's Canvas Layout Engine over a bounding rectangle
  and an orientation, with the page table (landscape 297 by 210, portrait 210 by 297)
  and the fixed padding of 10. It is written from the specification, to be compared
  with \<open>calculate_canvas_and_viewbox\<close>; division here is the field's.
\<close>

datatype orientation = Landscape | Portrait

fun spec_page_size :: "orientation \<Rightarrow> rat \<times> rat" where
  "spec_page_size Landscape = (297, 210)"
| "spec_page_size Portrait = (210, 297)"

definition spec_padding :: rat where
  "spec_padding = 10"

definition spec_compute_layout ::
  "bounds \<Rightarrow> orientation \<Rightarrow> rat \<times> rat \<times> rat \<times> rat \<times> rat \<times> rat" where
  "spec_compute_layout b ori =
     (let page_w = fst (spec_page_size ori);
          page_h = snd (spec_page_size ori);
          content_w = page_w - 2 * spec_padding;
          content_h = page_h - 2 * spec_padding;
          w = max_x b - min_x b;
          h = max_y b - min_y b;
          s = min (content_w / w) (content_h / h);
          scaled_w = w * s;
          scaled_h = h * s;
          off_x = (page_w - scaled_w) / 2;
          off_y = (page_h - scaled_h) / 2;
          vb_w = page_w / s;
          vb_h = page_h / s;
          vb_x = min_x b - (off_x - spec_padding) / s;
          vb_y = min_y b - (off_y - spec_padding) / s
      in (page_w, page_h, vb_x, vb_y, vb_w, vb_h))"

section \<open>Sample inputs\<close>

text \<open>
  Two entities on opposite corners of \<open>[0,100] \<times> [0,50]\<close>, one inside, and an empty
  category.
\<close>

definition sample_data :: "unit entity_collection" where
  "sample_data =
     [(''belts'', [\<lparr>entity_x = 0, entity_y = 0\<rparr>, \<lparr>entity_x = 100, entity_y = 50\<rparr>]),
      (''walls'', []),
      (''rails'', [\<lparr>entity_x = 40, entity_y = 10\<rparr>])]"

text \<open>The same rectangle from other entities in other categories.\<close>

definition corner_data :: "unit entity_collection" where
  "corner_data =
     [(''walls'', [\<lparr>entity_x = 0, entity_y = 50\<rparr>]),
      (''asset'', [\<lparr>entity_x = 100, entity_y = 0\<rparr>])]"

text \<open>A vertical line of entities, and a collection whose categories are all empty.\<close>

definition column_data :: "unit entity_collection" where
  "column_data = [(''belts'', [\<lparr>entity_x = 3, entity_y = 0\<rparr>, \<lparr>entity_x = 3, entity_y = 5\<rparr>])]"

definition empty_data :: "unit entity_collection" where
  "empty_data = [(''belts'', []), (''walls'', [])]"

text \<open>A theme whose shapes are a tag and the entity's position.\<close>

definition sample_theme :: "(unit, string \<times> rat \<times> rat) theme" where
  "sample_theme =
     \<lparr>render_belt = (\<lambda>e. (''belt'', entity_x e, entity_y e)),
      render_wall = (\<lambda>e. (''wall'', entity_x e, entity_y e)),
      render_splitter = (\<lambda>e. (''splitter'', entity_x e, entity_y e)),
      render_asset = (\<lambda>e. (''asset'', entity_x e, entity_y e)),
      render_spaceship = (\<lambda>e. (''spaceship'', entity_x e, entity_y e)),
      render_rail = (\<lambda>e. (''rail'', entity_x e, entity_y e))\<rparr>"


section \<open>Properties of the bounds\<close>

lemma py_min_from_le_seed: "py_min_from m vs \<le> m"
proof (induction vs arbitrary: m)
  case Nil
  then show ?case by simp
next
  case (Cons a vs)
  have "py_min_from (if a < m then a else m) vs \<le> (if a < m then a else m)"
    by (rule Cons.IH)
  also have "\<dots> \<le> m" by simp
  finally show ?case by simp
qed

lemma py_min_from_le_item: "v \<in> set vs \<Longrightarrow> py_min_from m vs \<le> v"
proof (induction vs arbitrary: m)
  case Nil
  then show ?case by simp
next
  case (Cons a vs)
  show ?case
  proof (cases "v = a")
    case True
    have "py_min_from (if a < m then a else m) vs \<le> (if a < m then a else m)"
      by (rule py_min_from_le_seed)
    also have "\<dots> \<le> a" by simp
    finally show ?thesis using True by simp
  next
    case False
    with Cons.prems have "v \<in> set vs" by simp
    then show ?thesis using Cons.IH by simp
  qed
qed

lemma py_max_from_ge_seed: "m \<le> py_max_from m vs"
proof (induction vs arbitrary: m)
  case Nil
  then show ?case by simp
next
  case (Cons a vs)
  have "m \<le> (if a > m then a else m)" by simp
  also have "\<dots> \<le> py_max_from (if a > m then a else m) vs"
    by (rule Cons.IH)
  finally show ?case by simp
qed

lemma py_max_from_ge_item: "v \<in> set vs \<Longrightarrow> v \<le> py_max_from m vs"
proof (induction vs arbitrary: m)
  case Nil
  then show ?case by simp
next
  case (Cons a vs)
  show ?case
  proof (cases "v = a")
    case True
    have "a \<le> (if a > m then a else m)" by simp
    also have "\<dots> \<le> py_max_from (if a > m then a else m) vs"
      by (rule py_max_from_ge_seed)
    finally show ?thesis using True by simp
  next
    case False
    with Cons.prems have "v \<in> set vs" by simp
    then show ?thesis using Cons.IH by simp
  qed
qed

lemma get_entity_bounds_None:
  "get_entity_bounds data = None \<longleftrightarrow> (\<forall>category \<in> set (dict_values data). category = [])"
proof -
  have "(case xs of [] \<Rightarrow> None | e # es \<Rightarrow> Some (f e es)) = None \<longleftrightarrow> xs = []"
    for xs :: "'b list" and f :: "'b \<Rightarrow> 'b list \<Rightarrow> bounds"
    by (cases xs) simp_all
  then have "get_entity_bounds data = None \<longleftrightarrow> concat (dict_values data) = []"
    unfolding get_entity_bounds_def Let_def .
  then show ?thesis by simp
qed

lemma get_entity_bounds_contains:
  assumes b: "get_entity_bounds data = Some b"
    and c: "category \<in> set (dict_values data)"
    and e: "e \<in> set category"
  shows "min_x b \<le> entity_x e \<and> entity_x e \<le> max_x b \<and>
         min_y b \<le> entity_y e \<and> entity_y e \<le> max_y b"
proof -
  from c e have mem: "e \<in> set (concat (dict_values data))" by auto
  from b obtain e0 es where all: "concat (dict_values data) = e0 # es"
    and bx: "b = \<lparr>min_x = py_min_from (entity_x e0) (map entity_x es),
                   max_x = py_max_from (entity_x e0) (map entity_x es),
                   min_y = py_min_from (entity_y e0) (map entity_y es),
                   max_y = py_max_from (entity_y e0) (map entity_y es)\<rparr>"
    by (auto simp: get_entity_bounds_def Let_def split: list.splits)
  from mem all have "e = e0 \<or> e \<in> set es" by simp
  then show ?thesis
  proof
    assume "e = e0"
    then show ?thesis
      by (simp add: bx py_min_from_le_seed py_max_from_ge_seed)
  next
    assume "e \<in> set es"
    then have "entity_x e \<in> set (map entity_x es)" "entity_y e \<in> set (map entity_y es)"
      by simp_all
    then show ?thesis
      by (simp add: bx py_min_from_le_item py_max_from_ge_item del: set_map)
  qed
qed

lemma get_entity_bounds_ordered:
  assumes "get_entity_bounds data = Some b"
  shows "min_x b \<le> max_x b \<and> min_y b \<le> max_y b"
proof -
  from assms obtain e0 es where "concat (dict_values data) = e0 # es"
    and bx: "b = \<lparr>min_x = py_min_from (entity_x e0) (map entity_x es),
                   max_x = py_max_from (entity_x e0) (map entity_x es),
                   min_y = py_min_from (entity_y e0) (map entity_y es),
                   max_y = py_max_from (entity_y e0) (map entity_y es)\<rparr>"
    by (auto simp: get_entity_bounds_def Let_def split: list.splits)
  have "py_min_from (entity_x e0) (map entity_x es) \<le> py_max_from (entity_x e0) (map entity_x es)"
    using py_min_from_le_seed py_max_from_ge_seed by (rule order_trans)
  moreover
  have "py_min_from (entity_y e0) (map entity_y es) \<le> py_max_from (entity_y e0) (map entity_y es)"
    using py_min_from_le_seed py_max_from_ge_seed by (rule order_trans)
  ultimately show ?thesis by (simp add: bx)
qed

text \<open>
  Claim C4. For every collection with at least one entity, \<^verbatim>\<open>get_entity_bounds\<close> returns
  a rectangle, and that rectangle contains the position of every entity of every
  category: \<open>min_x \<le> x \<le> max_x\<close> and \<open>min_y \<le> y \<le> max_y\<close>; consequently
  \<open>min_x \<le> max_x\<close> and \<open>min_y \<le> max_y\<close>.
\<close>

theorem get_entity_bounds_encloses:
  fixes data :: "'a entity_collection"
  assumes "\<exists>category \<in> set (dict_values data). category \<noteq> []"
  shows "\<exists>b. get_entity_bounds data = Some b \<and>
           (\<forall>category \<in> set (dict_values data). \<forall>e \<in> set category.
              min_x b \<le> entity_x e \<and> entity_x e \<le> max_x b \<and>
              min_y b \<le> entity_y e \<and> entity_y e \<le> max_y b) \<and>
           min_x b \<le> max_x b \<and> min_y b \<le> max_y b"
proof -
  from assms have "get_entity_bounds data \<noteq> None"
    by (simp add: get_entity_bounds_None)
  then obtain b where b: "get_entity_bounds data = Some b" by auto
  show ?thesis
    using b get_entity_bounds_contains [OF b] get_entity_bounds_ordered [OF b] by blast
qed

theorem get_entity_bounds_encloses_witness:
  "(\<exists>category \<in> set (dict_values sample_data). category \<noteq> []) \<and>
   (\<exists>b. get_entity_bounds sample_data = Some b \<and>
      (\<forall>category \<in> set (dict_values sample_data). \<forall>e \<in> set category.
         min_x b \<le> entity_x e \<and> entity_x e \<le> max_x b \<and>
         min_y b \<le> entity_y e \<and> entity_y e \<le> max_y b) \<and>
      min_x b \<le> max_x b \<and> min_y b \<le> max_y b)"
proof -
  have h: "\<exists>category \<in> set (dict_values sample_data). category \<noteq> []"
    by (simp add: sample_data_def dict_values_def)
  show ?thesis
    using h get_entity_bounds_encloses [OF h] by blast
qed

section \<open>Properties of the layout\<close>

lemma py_truediv_nonzero: "b \<noteq> 0 \<Longrightarrow> py_truediv a b = Inr (a / b)"
  by (simp add: py_truediv_def)

lemma fit_scale_pos:
  fixes cw ch w h :: rat
  assumes "0 < cw" "0 < ch" "0 < w" "0 < h"
  shows "0 < min (cw / w) (ch / h)"
  using assms by simp

lemma locals_value:
  fixes data :: "'a entity_collection" and orientation :: string and b :: bounds
  assumes b: "get_entity_bounds data = Some b"
    and w: "min_x b < max_x b" and h: "min_y b < max_y b"
  defines "pw \<equiv> (if orientation = ''landscape'' then 297 else 210 :: rat)"
    and "ph \<equiv> (if orientation = ''landscape'' then 210 else 297 :: rat)"
  defines "s \<equiv> min ((pw - 2 * 10) / (max_x b - min_x b)) ((ph - 2 * 10) / (max_y b - min_y b))"
  shows "calculate_canvas_and_viewbox_locals data orientation =
     Inr \<lparr>svg_width_mm = pw, svg_height_mm = ph, padding_mm = 10,
          content_width_mm = pw - 2 * 10, content_height_mm = ph - 2 * 10,
          width = max_x b - min_x b, height = max_y b - min_y b, scale = s,
          scaled_width = (max_x b - min_x b) * s, scaled_height = (max_y b - min_y b) * s,
          x_offset = (pw - (max_x b - min_x b) * s) / 2,
          y_offset = (ph - (max_y b - min_y b) * s) / 2,
          viewbox_width = pw / s, viewbox_height = ph / s,
          viewbox_x = min_x b - ((pw - (max_x b - min_x b) * s) / 2 - 10) / s,
          viewbox_y = min_y b - ((ph - (max_y b - min_y b) * s) / 2 - 10) / s\<rparr>
     \<and> 0 < s"
proof -
  have wn: "max_x b - min_x b \<noteq> 0" and hn: "max_y b - min_y b \<noteq> 0"
    using w h by simp_all
  have "0 < pw - 2 * 10" "0 < ph - 2 * 10" by (simp_all add: pw_def ph_def)
  moreover have "0 < max_x b - min_x b" "0 < max_y b - min_y b" using w h by simp_all
  ultimately have spos: "0 < s" unfolding s_def by (rule fit_scale_pos)
  then have sn: "s \<noteq> 0" by simp
  show ?thesis
    unfolding calculate_canvas_and_viewbox_locals_def Let_def b option.case
      pw_def [symmetric] ph_def [symmetric]
      py_truediv_nonzero [OF wn] py_truediv_nonzero [OF hn] sum.case
      s_def [symmetric] py_truediv_nonzero [OF sn]
    using spos by simp
qed

text \<open>
  Claim C1. For every collection whose bounding rectangle has strictly positive width
  and height, and for either orientation, \<^verbatim>\<open>calculate_canvas_and_viewbox\<close> returns, and
  returns exactly the values of the specified algorithm: the page of the orientation,
  the scale \<open>min (content_width / width) (content_height / height)\<close> where the content
  box is the page less twice the padding of 10, the viewbox extent \<open>page / scale\<close>, and
  the viewbox origin \<open>min - (offset - padding) / scale\<close> where
  \<open>offset = (page - extent * scale) / 2\<close>. The string \<^verbatim>\<open>'landscape'\<close> selects the
  landscape page and every other string the portrait page.
\<close>

theorem calculate_canvas_and_viewbox_meets_spec:
  fixes data :: "'a entity_collection"
  assumes "get_entity_bounds data = Some b"
    and "0 < max_x b - min_x b" and "0 < max_y b - min_y b"
  shows "calculate_canvas_and_viewbox data orientation =
           Inr (spec_compute_layout b (if orientation = ''landscape'' then Landscape else Portrait))"
proof -
  from assms have w: "min_x b < max_x b" and h: "min_y b < max_y b" by simp_all
  note v = locals_value [OF assms(1) w h, of orientation, THEN conjunct1]
  show ?thesis
    unfolding calculate_canvas_and_viewbox_def v sum.case
    by (simp add: spec_compute_layout_def spec_padding_def Let_def)
qed

theorem calculate_canvas_and_viewbox_meets_spec_witness:
  "get_entity_bounds sample_data = Some \<lparr>min_x = 0, max_x = 100, min_y = 0, max_y = 50\<rparr> \<and>
   calculate_canvas_and_viewbox sample_data ''portrait'' =
     Inr (spec_compute_layout \<lparr>min_x = 0, max_x = 100, min_y = 0, max_y = 50\<rparr> Portrait) \<and>
   spec_compute_layout \<lparr>min_x = 0, max_x = 100, min_y = 0, max_y = 50\<rparr> Portrait =
     (210, 297, 0, - (910 / 19), 2100 / 19, 2970 / 19)"
proof -
  have b: "get_entity_bounds sample_data = Some \<lparr>min_x = 0, max_x = 100, min_y = 0, max_y = 50\<rparr>"
    by (simp add: sample_data_def get_entity_bounds_def dict_values_def)
  have "calculate_canvas_and_viewbox sample_data ''portrait'' =
     Inr (spec_compute_layout \<lparr>min_x = 0, max_x = 100, min_y = 0, max_y = 50\<rparr> Portrait)"
    using calculate_canvas_and_viewbox_meets_spec [OF b, of "''portrait''"] by simp
  moreover have "spec_compute_layout \<lparr>min_x = 0, max_x = 100, min_y = 0, max_y = 50\<rparr> Portrait =
     (210, 297, 0, - (910 / 19), 2100 / 19, 2970 / 19)"
    by (simp add: spec_compute_layout_def spec_padding_def Let_def)
  ultimately show ?thesis using b by simp
qed





text \<open>
  Claim C9. For every collection whose bounding rectangle has strictly positive width
  and height, and for either orientation, the scaled dimensions computed by
  \<^verbatim>\<open>calculate_canvas_and_viewbox\<close> are the width and the height times one and the same
  scale, and \<open>scaled_width / scaled_height = width / height\<close>. In exact arithmetic the
  ratio is preserved exactly.
\<close>

theorem scaled_aspect_ratio:
  fixes data :: "'a entity_collection"
  assumes "get_entity_bounds data = Some b"
    and "0 < max_x b - min_x b" and "0 < max_y b - min_y b"
  shows "\<exists>l. calculate_canvas_and_viewbox_locals data orientation = Inr l \<and>
           width l = max_x b - min_x b \<and> height l = max_y b - min_y b \<and>
           scaled_width l = width l * scale l \<and> scaled_height l = height l * scale l \<and>
           scaled_width l / scaled_height l = width l / height l"
proof -
  from assms have w: "min_x b < max_x b" and h: "min_y b < max_y b" by simp_all
  note v = locals_value [OF assms(1) w h, of orientation]
  from v have "calculate_canvas_and_viewbox_locals data orientation \<noteq> Inl e" for e by simp
  then obtain l where l: "calculate_canvas_and_viewbox_locals data orientation = Inr l"
    by (cases "calculate_canvas_and_viewbox_locals data orientation") auto
  from v l have sc: "0 < scale l" and wl: "width l = max_x b - min_x b"
    and hl: "height l = max_y b - min_y b"
    and sw: "scaled_width l = width l * scale l" and sh: "scaled_height l = height l * scale l"
    by auto
  have "scaled_width l / scaled_height l = width l / height l"
    using sc by (simp add: sw sh)
  with l wl hl sw sh show ?thesis by blast
qed

lemma locals_degenerate:
  fixes data :: "'a entity_collection"
  assumes "get_entity_bounds data = Some b"
    and "max_x b = min_x b \<or> max_y b = min_y b"
  shows "calculate_canvas_and_viewbox_locals data orientation = Inl ZeroDivisionError"
  using assms by (auto simp: calculate_canvas_and_viewbox_locals_def Let_def py_truediv_def)

lemma py_min_from_mem: "py_min_from m vs \<in> insert m (set vs)"
proof (induction vs arbitrary: m)
  case Nil
  show ?case by simp
next
  case (Cons a vs)
  have "py_min_from (if a < m then a else m) vs \<in> insert (if a < m then a else m) (set vs)"
    by (rule Cons.IH)
  then show ?case by (auto split: if_splits)
qed

lemma py_max_from_mem: "py_max_from m vs \<in> insert m (set vs)"
proof (induction vs arbitrary: m)
  case Nil
  show ?case by simp
next
  case (Cons a vs)
  have "py_max_from (if a > m then a else m) vs \<in> insert (if a > m then a else m) (set vs)"
    by (rule Cons.IH)
  then show ?case by (auto split: if_splits)
qed

lemma get_entity_bounds_attained:
  fixes data :: "'a entity_collection"
  assumes "get_entity_bounds data = Some b"
  shows "min_x b \<in> entity_x ` set (concat (dict_values data))"
    and "max_x b \<in> entity_x ` set (concat (dict_values data))"
    and "min_y b \<in> entity_y ` set (concat (dict_values data))"
    and "max_y b \<in> entity_y ` set (concat (dict_values data))"
proof -
  from assms obtain e0 es where all: "concat (dict_values data) = e0 # es"
    and bx: "b = \<lparr>min_x = py_min_from (entity_x e0) (map entity_x es),
                   max_x = py_max_from (entity_x e0) (map entity_x es),
                   min_y = py_min_from (entity_y e0) (map entity_y es),
                   max_y = py_max_from (entity_y e0) (map entity_y es)\<rparr>"
    by (auto simp: get_entity_bounds_def Let_def split: list.splits)
  show "min_x b \<in> entity_x ` set (concat (dict_values data))"
    using py_min_from_mem [of "entity_x e0" "map entity_x es"] by (simp add: all bx)
  show "max_x b \<in> entity_x ` set (concat (dict_values data))"
    using py_max_from_mem [of "entity_x e0" "map entity_x es"] by (simp add: all bx)
  show "min_y b \<in> entity_y ` set (concat (dict_values data))"
    using py_min_from_mem [of "entity_y e0" "map entity_y es"] by (simp add: all bx)
  show "max_y b \<in> entity_y ` set (concat (dict_values data))"
    using py_max_from_mem [of "entity_y e0" "map entity_y es"] by (simp add: all bx)
qed

text \<open>
  Claim C3. For every collection with at least one entity whose entities all share the
  same \<open>x\<close> (width zero), or all share the same \<open>y\<close> (height zero),
  \<^verbatim>\<open>calculate_canvas_and_viewbox\<close> returns no viewbox: it raises the division-by-zero
  failure of the scale computation, which is the failure the specification calls
  DegenerateExtent.
\<close>

theorem degenerate_extent_raises:
  fixes data :: "'a entity_collection"
  assumes nonempty: "\<exists>category \<in> set (dict_values data). category \<noteq> []"
    and same: "(\<forall>category \<in> set (dict_values data). \<forall>e \<in> set category. entity_x e = x0) \<or>
               (\<forall>category \<in> set (dict_values data). \<forall>e \<in> set category. entity_y e = y0)"
  shows "calculate_canvas_and_viewbox data orientation = Inl ZeroDivisionError"
proof -
  from nonempty have "get_entity_bounds data \<noteq> None"
    by (simp add: get_entity_bounds_None)
  then obtain b where b: "get_entity_bounds data = Some b" by auto
  from same have "max_x b = min_x b \<or> max_y b = min_y b"
  proof
    assume "\<forall>category \<in> set (dict_values data). \<forall>e \<in> set category. entity_x e = x0"
    then have "entity_x ` set (concat (dict_values data)) \<subseteq> {x0}" by auto
    with get_entity_bounds_attained(1,2) [OF b] have "min_x b = x0" "max_x b = x0" by auto
    then show ?thesis by simp
  next
    assume "\<forall>category \<in> set (dict_values data). \<forall>e \<in> set category. entity_y e = y0"
    then have "entity_y ` set (concat (dict_values data)) \<subseteq> {y0}" by auto
    with get_entity_bounds_attained(3,4) [OF b] have "min_y b = y0" "max_y b = y0" by auto
    then show ?thesis by simp
  qed
  from locals_degenerate [OF b this] show ?thesis
    by (simp add: calculate_canvas_and_viewbox_def)
qed

theorem degenerate_extent_raises_witness:
  "map entity_x (concat (dict_values column_data)) = [3, 3] \<and>
   calculate_canvas_and_viewbox column_data ''landscape'' = Inl ZeroDivisionError"
proof -
  have v: "map entity_x (concat (dict_values column_data)) = [3, 3]"
    by (simp add: column_data_def dict_values_def)
  have h1: "\<exists>category \<in> set (dict_values column_data). category \<noteq> []"
    by (simp add: column_data_def dict_values_def)
  have h2: "\<forall>category \<in> set (dict_values column_data). \<forall>e \<in> set category. entity_x e = 3"
    by (simp add: column_data_def dict_values_def)
  from h2 have h3: "(\<forall>category \<in> set (dict_values column_data). \<forall>e \<in> set category. entity_x e = 3) \<or>
      (\<forall>category \<in> set (dict_values column_data). \<forall>e \<in> set category. entity_y e = 0)" ..
  show ?thesis
    using v degenerate_extent_raises [OF h1 h3, of "''landscape''"] by blast
qed


lemma sample_data_bounds:
  "get_entity_bounds sample_data = Some \<lparr>min_x = 0, max_x = 100, min_y = 0, max_y = 50\<rparr>"
  by (simp add: sample_data_def get_entity_bounds_def dict_values_def)

lemma corner_data_bounds:
  "get_entity_bounds corner_data = Some \<lparr>min_x = 0, max_x = 100, min_y = 0, max_y = 50\<rparr>"
  by (simp add: corner_data_def get_entity_bounds_def dict_values_def)


theorem scaled_aspect_ratio_witness:
  "get_entity_bounds sample_data = Some \<lparr>min_x = 0, max_x = 100, min_y = 0, max_y = 50\<rparr> \<and>
   (\<exists>l. calculate_canvas_and_viewbox_locals sample_data ''landscape'' = Inr l \<and>
      width l = 100 \<and> height l = 50 \<and>
      scaled_width l / scaled_height l = width l / height l)"
proof -
  have "\<exists>l. calculate_canvas_and_viewbox_locals sample_data ''landscape'' = Inr l \<and>
      width l = 100 \<and> height l = 50 \<and>
      scaled_width l / scaled_height l = width l / height l"
    using scaled_aspect_ratio [OF sample_data_bounds, of "''landscape''"] by auto
  with sample_data_bounds show ?thesis by blast
qed

text \<open>
  Claim C10. Two collections with the same bounds, whatever their categories, entity
  counts and other entity fields, get the same result from
  \<^verbatim>\<open>calculate_canvas_and_viewbox\<close> for the same orientation.
\<close>

theorem layout_depends_on_bounds_only:
  fixes d1 :: "'a entity_collection" and d2 :: "'b entity_collection"
  assumes "get_entity_bounds d1 = get_entity_bounds d2"
  shows "calculate_canvas_and_viewbox d1 orientation = calculate_canvas_and_viewbox d2 orientation"
  using assms
  by (simp add: calculate_canvas_and_viewbox_def calculate_canvas_and_viewbox_locals_def)

theorem layout_depends_on_bounds_only_witness:
  "sample_data \<noteq> corner_data \<and>
   get_entity_bounds sample_data = get_entity_bounds corner_data \<and>
   calculate_canvas_and_viewbox sample_data ''landscape'' =
     calculate_canvas_and_viewbox corner_data ''landscape''"
proof -
  have eq: "get_entity_bounds sample_data = get_entity_bounds corner_data"
    by (simp add: sample_data_bounds corner_data_bounds)
  have ne: "sample_data \<noteq> corner_data"
    by (simp add: sample_data_def corner_data_def)
  show ?thesis
    using ne eq layout_depends_on_bounds_only [OF eq, of "''landscape''"] by blast
qed

text \<open>
  Claim C2, as amended. For every collection in which every category is empty,
  \<^verbatim>\<open>get_entity_bounds\<close> returns \<^verbatim>\<open>None\<close>; \<^verbatim>\<open>calculate_canvas_and_viewbox\<close>, called on
  the collection, raises \<^verbatim>\<open>TypeError\<close> at its first read of the bounds, before any
  scale or viewbox arithmetic; and \<^verbatim>\<open>create\<close> ends with that same failure. No viewbox
  is produced.
\<close>

theorem empty_collection_fails_in_layout:
  fixes data :: "'a entity_collection"
  assumes "\<forall>category \<in> set (dict_values data). category = []"
  shows "get_entity_bounds data = None \<and>
         calculate_canvas_and_viewbox data orientation = Inl TypeError \<and>
         create circles_theme default_theme data template = Inl TypeError"
proof -
  from assms have n: "get_entity_bounds data = None"
    by (simp add: get_entity_bounds_None)
  then have l: "calculate_canvas_and_viewbox_locals data s = Inl TypeError" for s
    by (simp add: calculate_canvas_and_viewbox_locals_def)
  then have c: "calculate_canvas_and_viewbox data s = Inl TypeError" for s
    by (simp add: calculate_canvas_and_viewbox_def)
  then have "create circles_theme default_theme data template = Inl TypeError"
    by (simp add: create_def)
  with n c show ?thesis by simp
qed

theorem empty_collection_fails_in_layout_witness:
  "dict_values empty_data = [[], []] \<and>
   get_entity_bounds empty_data = None \<and>
   calculate_canvas_and_viewbox empty_data ''landscape'' = Inl TypeError \<and>
   create sample_theme sample_theme empty_data ''default'' = Inl TypeError"
proof -
  have v: "dict_values empty_data = [[], []]"
    by (simp add: empty_data_def dict_values_def)
  then have h: "\<forall>category \<in> set (dict_values empty_data). category = []"
    by simp
  show ?thesis
    using v empty_collection_fails_in_layout [OF h, of "''landscape''" sample_theme sample_theme "''default''"]
    by blast
qed

text \<open>
  Against claim C2 as stated: on a collection whose categories are all empty the
  failure that \<^verbatim>\<open>create\<close> ends with is the one raised inside
  \<^verbatim>\<open>calculate_canvas_and_viewbox\<close>, which \<^verbatim>\<open>create\<close> calls on the collection without
  looking at its bounds first; it is Python's \<^verbatim>\<open>TypeError\<close>, not a failure of its own
  for the empty data set.
\<close>

theorem layout_invoked_on_empty_collection:
  "calculate_canvas_and_viewbox empty_data ''landscape'' = Inl TypeError \<and>
   create sample_theme sample_theme empty_data ''default'' = Inl TypeError"
  by (simp add: empty_data_def calculate_canvas_and_viewbox_def
      calculate_canvas_and_viewbox_locals_def get_entity_bounds_def dict_values_def create_def)

text \<open>
  Claim C7, as amended. For bounds \<open>{min_x = 0, max_x = 100, min_y = 0, max_y = 50}\<close>
  and landscape orientation the page is 297 by 210, the content box 277 by 190, the
  scale \<open>min (277/100) (190/50) = 2.77\<close>, the scaled width 277 and the scaled height
  138.5, \<open>x_offset = 10\<close> (the padding, so that \<open>x_offset - padding = 0\<close>),
  \<open>y_offset = (210 - 138.5) / 2 = 35.75\<close>, and the viewbox covers
  \<open>[0,100] \<times> [0,50]\<close>.
\<close>

theorem scenario_landscape_100_by_50:
  fixes data :: "'a entity_collection"
  assumes "get_entity_bounds data = Some \<lparr>min_x = 0, max_x = 100, min_y = 0, max_y = 50\<rparr>"
  shows "\<exists>l. calculate_canvas_and_viewbox_locals data ''landscape'' = Inr l \<and>
           svg_width_mm l = 297 \<and> svg_height_mm l = 210 \<and>
           content_width_mm l = 277 \<and> content_height_mm l = 190 \<and>
           scale l = min (277 / 100) (190 / 50) \<and> scale l = 277 / 100 \<and>
           scaled_width l = 277 \<and> scaled_height l = 277 / 2 \<and>
           x_offset l = 10 \<and> x_offset l - padding_mm l = 0 \<and>
           y_offset l = (210 - 277 / 2) / 2 \<and> y_offset l = 143 / 4 \<and>
           viewbox_x l \<le> 0 \<and> 100 \<le> viewbox_x l + viewbox_width l \<and>
           viewbox_y l \<le> 0 \<and> 50 \<le> viewbox_y l + viewbox_height l"
proof -
  have "calculate_canvas_and_viewbox_locals data ''landscape'' =
     Inr \<lparr>svg_width_mm = 297, svg_height_mm = 210, padding_mm = 10,
          content_width_mm = 277, content_height_mm = 190,
          width = 100, height = 50, scale = 277 / 100,
          scaled_width = 277, scaled_height = 277 / 2,
          x_offset = 10, y_offset = 143 / 4,
          viewbox_width = 29700 / 277, viewbox_height = 21000 / 277,
          viewbox_x = 0, viewbox_y = - (2575 / 277)\<rparr>"
    by (simp add: calculate_canvas_and_viewbox_locals_def assms py_truediv_def Let_def)
  then show ?thesis by simp
qed

theorem scenario_landscape_100_by_50_witness:
  "get_entity_bounds sample_data = Some \<lparr>min_x = 0, max_x = 100, min_y = 0, max_y = 50\<rparr> \<and>
   (\<exists>l. calculate_canvas_and_viewbox_locals sample_data ''landscape'' = Inr l \<and>
      scale l = 277 / 100 \<and> x_offset l = 10 \<and> y_offset l = 143 / 4)"
proof -
  have "\<exists>l. calculate_canvas_and_viewbox_locals sample_data ''landscape'' = Inr l \<and>
      scale l = 277 / 100 \<and> x_offset l = 10 \<and> y_offset l = 143 / 4"
    using scenario_landscape_100_by_50 [OF sample_data_bounds] by blast
  with sample_data_bounds show ?thesis by blast
qed

text \<open>
  Against claim C7 as stated: in that scenario \<open>x_offset\<close> is 10, not 0.
\<close>

theorem scenario_x_offset_is_not_zero:
  "map_sum id x_offset (calculate_canvas_and_viewbox_locals sample_data ''landscape'') = Inr 10 \<and>
   map_sum id x_offset (calculate_canvas_and_viewbox_locals sample_data ''landscape'') \<noteq> Inr 0"
  by (simp add: calculate_canvas_and_viewbox_locals_def sample_data_bounds py_truediv_def Let_def)

section \<open>Properties of the grid\<close>

lemma for_range_upto:
  "for_range i stop body g = g\<lparr>children := children g @ map body [i..stop - 1]\<rparr>"
proof (induction i stop body g rule: for_range.induct)
  case (1 i stop body g)
  show ?case
  proof (cases "i < stop")
    case True
    then have u: "[i..stop - 1] = i # [i + 1..stop - 1]"
      by (simp add: upto_rec1)
    have "for_range i stop body g =
        for_range (i + 1) stop body (g\<lparr>children := children g @ [body i]\<rparr>)"
      using True by (subst for_range.simps) simp
    also have "\<dots> = (g\<lparr>children := children g @ [body i]\<rparr>)
        \<lparr>children := children (g\<lparr>children := children g @ [body i]\<rparr>) @ map body [i + 1..stop - 1]\<rparr>"
      using True by (rule "1.IH")
    also have "\<dots> = g\<lparr>children := children g @ map body [i..stop - 1]\<rparr>"
      by (simp add: u)
    finally show ?thesis .
  next
    case False
    then have "for_range i stop body g = g"
      by (subst for_range.simps) simp
    with False show ?thesis by simp
  qed
qed


lemma create_grid_children:
  "create_grid dwg vb_x vb_y vb_w vb_h =
     dwg\<lparr>elements := elements dwg @
       [\<lparr>group_id = ''grid'',
         children =
           map (\<lambda>i. Line (of_int i, vb_y) (of_int i, vb_y + vb_h) (200, 200, 200) (5 / 100))
             [py_int vb_x..py_int (vb_x + vb_w)] @
           map (\<lambda>j. Line (vb_x, of_int j) (vb_x + vb_w, of_int j) (200, 200, 200) (5 / 100))
             [py_int vb_y..py_int (vb_y + vb_h)]\<rparr>]\<rparr>"
  unfolding create_grid_def Let_def for_range_upto by simp

lemma py_int_floor: "0 \<le> v \<or> v \<in> \<int> \<Longrightarrow> py_int v = \<lfloor>v\<rfloor>"
proof (cases "0 \<le> v")
  case True
  then show ?thesis by (simp add: py_int_def)
next
  case False
  assume "0 \<le> v \<or> v \<in> \<int>"
  with False have "v \<in> \<int>" by simp
  then obtain k where "v = of_int k" by (rule Ints_cases)
  then show ?thesis by (simp add: py_int_def)
qed










section \<open>Properties of the assembly\<close>

lemma add_rendered_children:
  "add_rendered render_method es g =
     g\<lparr>children := children g @ map (\<lambda>e. Rendered (render_method e)) es\<rparr>"
  by (induction es arbitrary: g) simp_all

lemma create_Inr:
  fixes data :: "'a entity_collection"
  assumes "create circles_theme default_theme data template = Inr dwg"
  shows "\<exists>page_w page_h vb_x vb_y vb_w vb_h.
     calculate_canvas_and_viewbox data ''landscape'' =
       Inr (page_w, page_h, vb_x, vb_y, vb_w, vb_h) \<and>
     dwg = render_groups
       (entity_types (if template = ''circles'' then circles_theme else default_theme)) data
       (create_grid \<lparr>size_mm = (page_w, page_h), viewBox = (vb_x, vb_y, vb_w, vb_h),
                     elements = []\<rparr> vb_x vb_y vb_w vb_h)"
proof (cases "calculate_canvas_and_viewbox data ''landscape''")
  case (Inl err)
  with assms show ?thesis by (simp add: create_def)
next
  case (Inr t)
  obtain page_w page_h vb_x vb_y vb_w vb_h where t: "t = (page_w, page_h, vb_x, vb_y, vb_w, vb_h)"
    by (rule prod_cases6)
  from assms have "dwg = render_groups
       (entity_types (if template = ''circles'' then circles_theme else default_theme)) data
       (create_grid \<lparr>size_mm = (page_w, page_h), viewBox = (vb_x, vb_y, vb_w, vb_h),
                     elements = []\<rparr> vb_x vb_y vb_w vb_h)"
    by (simp add: create_def Let_def Inr t)
  with Inr t show ?thesis by blast
qed


lemma render_groups_elements:
  fixes dwg :: "'s drawing"
  shows "render_groups types data dwg =
     dwg\<lparr>elements := elements dwg @
       map (\<lambda>(entity_type, render_method).
              \<lparr>group_id = entity_type,
               children = map (\<lambda>e. Rendered (render_method e)) (dict_get data entity_type [])\<rparr>)
         (filter (\<lambda>(entity_type, render_method). dict_get data entity_type [] \<noteq> []) types)\<rparr>"
proof (induction types arbitrary: dwg)
  case Nil
  show ?case by simp
next
  case (Cons t rest)
  obtain entity_type render_method where t: "t = (entity_type, render_method)"
    by (cases t)
  show ?case
  proof (cases "dict_get data entity_type [] = []")
    case True
    have "render_groups (t # rest) data dwg = render_groups rest data dwg"
      by (simp add: t Let_def True)
    also have "\<dots> = dwg\<lparr>elements := elements dwg @
       map (\<lambda>(entity_type, render_method).
              \<lparr>group_id = entity_type,
               children = map (\<lambda>e. Rendered (render_method e)) (dict_get data entity_type [])\<rparr>)
         (filter (\<lambda>(entity_type, render_method). dict_get data entity_type [] \<noteq> []) rest)\<rparr>"
      by (rule Cons.IH)
    finally show ?thesis by (simp add: t True)
  next
    case False
    define g :: "'s group" where "g =
      \<lparr>group_id = entity_type,
       children = map (\<lambda>e. Rendered (render_method e)) (dict_get data entity_type [])\<rparr>"
    have a: "add_rendered render_method (dict_get data entity_type [])
        \<lparr>group_id = entity_type, children = []\<rparr> = g"
      by (simp add: add_rendered_children g_def)
    have "render_groups (t # rest) data dwg =
        render_groups rest data (dwg\<lparr>elements := elements dwg @ [g]\<rparr>)"
      by (simp add: t Let_def False a)
    also have "\<dots> = (dwg\<lparr>elements := elements dwg @ [g]\<rparr>)
       \<lparr>elements := elements (dwg\<lparr>elements := elements dwg @ [g]\<rparr>) @
       map (\<lambda>(entity_type, render_method).
              \<lparr>group_id = entity_type,
               children = map (\<lambda>e. Rendered (render_method e)) (dict_get data entity_type [])\<rparr>)
         (filter (\<lambda>(entity_type, render_method). dict_get data entity_type [] \<noteq> []) rest)\<rparr>"
      by (rule Cons.IH)
    finally show ?thesis by (simp add: t False g_def)
  qed
qed


lemma map_fst_filter_keys:
  "map fst (filter (\<lambda>(k, v). P k) kvs) = filter P (map fst kvs)"
proof (induction kvs)
  case Nil
  show ?case by simp
next
  case (Cons kv kvs)
  obtain k v where kv: "kv = (k, v)" by (cases kv)
  from Cons.IH show ?case by (simp add: kv)
qed

lemma entity_types_names:
  "map fst (entity_types th) =
     [''belts'', ''walls'', ''splitters'', ''asset'', ''spaceship'', ''rails'']"
  by (simp add: entity_types_def)

lemma group_id_rendered:
  "map group_id
     (map (\<lambda>(entity_type, render_method).
              \<lparr>group_id = entity_type,
               children = map (\<lambda>e. Rendered (render_method e)) (dict_get data entity_type [])\<rparr>)
        types) = map fst types"
proof (induction types)
  case Nil
  show ?case by simp
next
  case (Cons t types)
  obtain entity_type render_method where t: "t = (entity_type, render_method)" by (cases t)
  from Cons.IH show ?case by (simp add: t)
qed

text \<open>
  Claim C8. Whenever \<^verbatim>\<open>create\<close> produces a drawing, its groups are the grid group first
  and then one group per entity category in the fixed order belts, walls, splitters,
  asset, spaceship, rails; the group of a category is present exactly when
  \<^verbatim>\<open>data.get(category, [])\<close> is not empty, and it holds the theme's shape of each entity
  of the category in the order of the input.
\<close>

theorem create_group_order:
  fixes data :: "'a entity_collection" and dwg :: "'s drawing"
  assumes "create circles_theme default_theme data template = Inr dwg"
  shows "\<exists>grid_group.
     group_id grid_group = ''grid'' \<and>
     elements dwg =
       grid_group #
       map (\<lambda>(entity_type, render_method).
              \<lparr>group_id = entity_type,
               children = map (\<lambda>e. Rendered (render_method e)) (dict_get data entity_type [])\<rparr>)
         (filter (\<lambda>(entity_type, render_method). dict_get data entity_type [] \<noteq> [])
            (entity_types (if template = ''circles'' then circles_theme else default_theme))) \<and>
     map group_id (elements dwg) =
       ''grid'' #
       filter (\<lambda>entity_type. dict_get data entity_type [] \<noteq> [])
         [''belts'', ''walls'', ''splitters'', ''asset'', ''spaceship'', ''rails'']"
proof -
  define th where "th = (if template = ''circles'' then circles_theme else default_theme)"
  define rendered :: "'s group list" where "rendered =
       map (\<lambda>(entity_type, render_method).
              \<lparr>group_id = entity_type,
               children = map (\<lambda>e. Rendered (render_method e)) (dict_get data entity_type [])\<rparr>)
         (filter (\<lambda>(entity_type, render_method). dict_get data entity_type [] \<noteq> [])
            (entity_types th))"
  from create_Inr [OF assms] obtain page_w page_h vb_x vb_y vb_w vb_h where
    d: "dwg = render_groups (entity_types th) data
          (create_grid \<lparr>size_mm = (page_w, page_h), viewBox = (vb_x, vb_y, vb_w, vb_h),
                        elements = []\<rparr> vb_x vb_y vb_w vb_h)"
    unfolding th_def by blast
  define grid_group :: "'s group" where "grid_group =
     \<lparr>group_id = ''grid'',
      children =
        map (\<lambda>i. Line (of_int i, vb_y) (of_int i, vb_y + vb_h) (200, 200, 200) (5 / 100))
          [py_int vb_x..py_int (vb_x + vb_w)] @
        map (\<lambda>j. Line (vb_x, of_int j) (vb_x + vb_w, of_int j) (200, 200, 200) (5 / 100))
          [py_int vb_y..py_int (vb_y + vb_h)]\<rparr>"
  have i: "group_id grid_group = ''grid''" by (simp add: grid_group_def)
  have g: "elements (create_grid \<lparr>size_mm = (page_w, page_h), viewBox = (vb_x, vb_y, vb_w, vb_h),
                        elements = []\<rparr> vb_x vb_y vb_w vb_h) = [grid_group]"
    unfolding create_grid_children grid_group_def by simp
  have "elements dwg =
      elements (create_grid \<lparr>size_mm = (page_w, page_h), viewBox = (vb_x, vb_y, vb_w, vb_h),
                        elements = []\<rparr> vb_x vb_y vb_w vb_h) @ rendered"
    unfolding d rendered_def render_groups_elements by simp
  then have e: "elements dwg = grid_group # rendered"
    unfolding g by simp
  have "map group_id rendered =
      map fst (filter (\<lambda>(entity_type, render_method). dict_get data entity_type [] \<noteq> [])
            (entity_types th))"
    unfolding rendered_def by (rule group_id_rendered)
  also have "\<dots> = filter (\<lambda>entity_type. dict_get data entity_type [] \<noteq> []) (map fst (entity_types th))"
    by (rule map_fst_filter_keys)
  finally have "map group_id rendered =
       filter (\<lambda>entity_type. dict_get data entity_type [] \<noteq> [])
         [''belts'', ''walls'', ''splitters'', ''asset'', ''spaceship'', ''rails'']"
    unfolding entity_types_names .
  with e i have n: "map group_id (elements dwg) =
       ''grid'' #
       filter (\<lambda>entity_type. dict_get data entity_type [] \<noteq> [])
         [''belts'', ''walls'', ''splitters'', ''asset'', ''spaceship'', ''rails'']"
    by simp
  from i e n have c: "group_id grid_group = ''grid'' \<and>
     elements dwg = grid_group # rendered \<and>
     map group_id (elements dwg) =
       ''grid'' #
       filter (\<lambda>entity_type. dict_get data entity_type [] \<noteq> [])
         [''belts'', ''walls'', ''splitters'', ''asset'', ''spaceship'', ''rails'']"
    by (intro conjI)
  show ?thesis
    by (rule exI [where x = grid_group]) (rule c [unfolded rendered_def th_def])
qed


theorem create_group_order_witness:
  "\<exists>dwg grid_group.
     create sample_theme sample_theme sample_data ''default'' = Inr dwg \<and>
     group_id grid_group = ''grid'' \<and>
     elements dwg =
       [grid_group,
        \<lparr>group_id = ''belts'',
         children = [Rendered (''belt'', 0, 0), Rendered (''belt'', 100, 50)]\<rparr>,
        \<lparr>group_id = ''rails'', children = [Rendered (''rail'', 40, 10)]\<rparr>] \<and>
     map group_id (elements dwg) = [''grid'', ''belts'', ''rails'']"
proof -
  have "calculate_canvas_and_viewbox sample_data ''landscape'' =
      Inr (297, 210, 0, - (2575 / 277), 29700 / 277, 21000 / 277)"
    by (simp add: calculate_canvas_and_viewbox_def calculate_canvas_and_viewbox_locals_def
        sample_data_bounds py_truediv_def Let_def)
  then obtain dwg where d: "create sample_theme sample_theme sample_data ''default'' = Inr dwg"
    by (simp add: create_def)
  have k: "dict_get sample_data ''belts'' [] =
        [\<lparr>entity_x = 0, entity_y = 0\<rparr>, \<lparr>entity_x = 100, entity_y = 50\<rparr>]"
      "dict_get sample_data ''walls'' [] = []"
      "dict_get sample_data ''splitters'' [] = []"
      "dict_get sample_data ''asset'' [] = []"
      "dict_get sample_data ''spaceship'' [] = []"
      "dict_get sample_data ''rails'' [] = [\<lparr>entity_x = 40, entity_y = 10\<rparr>]"
    by (simp_all add: dict_get_def sample_data_def)
  from create_group_order [OF d] obtain grid_group where
    i: "group_id grid_group = ''grid''"
    and e: "elements dwg =
       grid_group #
       map (\<lambda>(entity_type, render_method).
              \<lparr>group_id = entity_type,
               children = map (\<lambda>e. Rendered (render_method e)) (dict_get sample_data entity_type [])\<rparr>)
         (filter (\<lambda>(entity_type, render_method). dict_get sample_data entity_type [] \<noteq> [])
            (entity_types (if ''default'' = ''circles'' then sample_theme else sample_theme)))"
    and n: "map group_id (elements dwg) =
       ''grid'' #
       filter (\<lambda>entity_type. dict_get sample_data entity_type [] \<noteq> [])
         [''belts'', ''walls'', ''splitters'', ''asset'', ''spaceship'', ''rails'']"
    by (elim exE conjE)
  from e have e': "elements dwg =
       [grid_group,
        \<lparr>group_id = ''belts'',
         children = [Rendered (''belt'', 0, 0), Rendered (''belt'', 100, 50)]\<rparr>,
        \<lparr>group_id = ''rails'', children = [Rendered (''rail'', 40, 10)]\<rparr>]"
    by (simp add: entity_types_def sample_theme_def k)
  from n have n': "map group_id (elements dwg) = [''grid'', ''belts'', ''rails'']"
    by (simp add: k)
  from d i e' n' have "create sample_theme sample_theme sample_data ''default'' = Inr dwg \<and>
     group_id grid_group = ''grid'' \<and>
     elements dwg =
       [grid_group,
        \<lparr>group_id = ''belts'',
         children = [Rendered (''belt'', 0, 0), Rendered (''belt'', 100, 50)]\<rparr>,
        \<lparr>group_id = ''rails'', children = [Rendered (''rail'', 40, 10)]\<rparr>] \<and>
     map group_id (elements dwg) = [''grid'', ''belts'', ''rails'']"
    by (intro conjI)
  then show ?thesis by (intro exI)
qed

end
